theory Spec2Isabelle
  imports Main
begin

section \<open>JavaScript values used by the ledger\<close>

text \<open>
  Strings are \<^typ>\<open>string\<close>; a character stands for one code unit in the range 0..255.
  \<open>null\<close> and \<open>undefined\<close> are \<open>None\<close> of an option type. A number that may be
  \<open>NaN\<close> is an \<^typ>\<open>int option\<close> with \<open>None\<close> for \<open>NaN\<close>: the ledger only
  subtracts two such numbers and compares the difference with 300.
\<close>

type_synonym js_number = "int option"

definition js_minus :: "js_number \<Rightarrow> js_number \<Rightarrow> js_number" where
  "js_minus a b = (case a of None \<Rightarrow> None | Some x \<Rightarrow> (case b of None \<Rightarrow> None | Some y \<Rightarrow> Some (x - y)))"

definition js_gt :: "js_number \<Rightarrow> int \<Rightarrow> bool" where
  "js_gt a n = (case a of None \<Rightarrow> False | Some x \<Rightarrow> n < x)"

subsection \<open>\<open>Number.prototype.toString\<close> and \<open>String.prototype.slice(0, -3)\<close>\<close>

definition digit_char :: "int \<Rightarrow> char" where
  "digit_char d = char_of (48 + d)"

text \<open>The decimal digits of a number that is not negative.\<close>

function digits :: "int \<Rightarrow> string" where
  "digits n = (if n < 10 then [digit_char n] else digits (n div 10) @ [digit_char (n mod 10)])"
  by pat_completeness auto
termination
  by (relation "measure nat") auto

declare digits.simps [simp del]

text \<open>The decimal form of an integer; a clock reading is far below the \<open>10\<^sup>2\<^sup>1\<close> from
  which JavaScript prints an exponent.\<close>

definition Number_toString :: "int \<Rightarrow> string" where
  "Number_toString i = (if i < 0 then CHR ''-'' # digits (- i) else digits i)"

text \<open>\<open>s.slice(0, -3)\<close>: the string without its last three characters, empty when it has
  three or fewer.\<close>

definition slice_0_minus3 :: "string \<Rightarrow> string" where
  "slice_0_minus3 s = take (length s - 3) s"

text \<open>\<open>new Date().getTime().toString().slice(0, -3)\<close> at the clock reading \<open>now\<close>
  (milliseconds since the epoch).\<close>

definition seconds_string :: "int \<Rightarrow> string" where
  "seconds_string now = slice_0_minus3 (Number_toString now)"

subsection \<open>\<open>String.prototype.split\<close> and indexing\<close>

fun split :: "char \<Rightarrow> string \<Rightarrow> string list" where
  "split sep [] = [[]]"
| "split sep (c # cs) =
     (if c = sep then [] # split sep cs
      else (case split sep cs of [] \<Rightarrow> [[c]] | w # ws \<Rightarrow> (c # w) # ws))"

text \<open>\<open>xs[i]\<close>: \<open>undefined\<close> out of range.\<close>

definition index :: "'a list \<Rightarrow> nat \<Rightarrow> 'a option" where
  "index xs i = (if i < length xs then Some (xs ! i) else None)"

subsection \<open>\<open>parseInt\<close> with no radix argument\<close>

definition isWhiteSpace :: "char \<Rightarrow> bool" where
  "isWhiteSpace c = ((of_char c :: int) \<in> {9, 10, 11, 12, 13, 32, 160})"

definition digit_value :: "char \<Rightarrow> int option" where
  "digit_value c =
     (let k = (of_char c :: int) in
      if 48 \<le> k \<and> k \<le> 57 then Some (k - 48)
      else if 97 \<le> k \<and> k \<le> 102 then Some (k - 87)
      else if 65 \<le> k \<and> k \<le> 70 then Some (k - 55)
      else None)"

definition is_radix_digit :: "int \<Rightarrow> char \<Rightarrow> bool" where
  "is_radix_digit R c = (case digit_value c of None \<Rightarrow> False | Some v \<Rightarrow> v < R)"

definition radix_value :: "int \<Rightarrow> string \<Rightarrow> int" where
  "radix_value R Z = foldl (\<lambda>acc c. acc * R + (case digit_value c of None \<Rightarrow> 0 | Some v \<Rightarrow> v)) 0 Z"

text \<open>
  The argument is \<open>None\<close> for \<open>undefined\<close>, whose string form \<open>"undefined"\<close> has no
  digit. Otherwise: leading white space is dropped, a sign is read, a prefix \<open>0x\<close> or
  \<open>0X\<close> selects radix 16, and the longest run of digits is the value; no digit gives
  \<open>NaN\<close>.
\<close>

definition parseInt :: "string option \<Rightarrow> js_number" where
  "parseInt arg =
     (case arg of
        None \<Rightarrow> None
      | Some inputString \<Rightarrow>
          (let S = dropWhile isWhiteSpace inputString;
               sign = (if take 1 S = ''-'' then - 1 else (1::int));
               S1 = (if take 1 S = ''+'' \<or> take 1 S = ''-'' then drop 1 S else S);
               hex = (take 2 S1 = ''0x'' \<or> take 2 S1 = ''0X'');
               R = (if hex then 16 else 10);
               S2 = (if hex then drop 2 S1 else S1);
               Z = takeWhile (is_radix_digit R) S2
           in if Z = [] then None else Some (sign * radix_value R Z)))"

section \<open>Blocks\<close>

text \<open>
  The fields of a block as \<open>_addBlock\<close>, \<open>validateChain\<close> and the queries read and write
  them. \<open>hash\<close> and \<open>previousBlockHash\<close> are \<open>None\<close> while unset; \<open>time\<close> is the
  string that \<open>_addBlock\<close> stores.
\<close>

record block =
  hash :: "string option"
  height :: int
  body :: string
  time :: "string option"
  previousBlockHash :: "string option"

type_synonym star = string

datatype payload =
    GenesisPayload string
  | StarPayload string string string star

text \<open>
  The functions the ledger calls and does not define: the digest
  \<open>SHA256(...).toString()\<close>, \<open>JSON.stringify\<close> of a block,
  \<open>bitcoinMessage.verify(message, address, signature)\<close> (which returns a boolean or
  throws, \<open>Inl\<close> carrying the thrown error's text), the encoding of a payload into the
  body of a new block, and the method \<open>getBData\<close> of a block, which decodes its payload
  (\<open>None\<close> when its promise rejects).
\<close>

record libs =
  SHA256 :: "string \<Rightarrow> string"
  JSON_stringify :: "block \<Rightarrow> string"
  verify :: "string \<Rightarrow> string \<Rightarrow> string \<Rightarrow> string + bool"
  encodeData :: "payload \<Rightarrow> string"
  getBData :: "block \<Rightarrow> payload option"

text \<open>
  Modelled from the spec: the class \<open>Block\<close> of \<open>block.js\<close> is not among the sources.
  Its constructor sets the encoded payload and leaves the structural fields unset.
\<close>

definition new_Block :: "libs \<Rightarrow> payload \<Rightarrow> block" where
  "new_Block L data =
     \<lparr>hash = None, height = 0, body = encodeData L data, time = None, previousBlockHash = None\<rparr>"

text \<open>
  Modelled from the spec: the digest of a block's content with its own hash field
  cleared.
\<close>

definition recomputed_digest :: "libs \<Rightarrow> block \<Rightarrow> string" where
  "recomputed_digest L b = SHA256 L (JSON_stringify L (b\<lparr>hash := None\<rparr>))"

text \<open>
  Modelled from the spec: \<open>validate\<close> recomputes the digest with the hash field cleared
  and compares it with the stored hash; the block of height 0 is always valid. The
  result is \<open>Inr\<close> of the boolean the promise resolves with; \<open>Inl\<close> stands for a
  rejection, which the specified \<open>validate\<close> never produces.
\<close>

definition validate :: "libs \<Rightarrow> block \<Rightarrow> string + bool" where
  "validate L b = Inr (height b = 0 \<or> hash b = Some (recomputed_digest L b))"

section \<open>Promises\<close>

text \<open>
  The reasons the ledger rejects with. In the source they are the strings
  \<^item> \<open>'Error: more than 5 minutes has elapsed beyond owners timestamp within message'\<close>,
  \<^item> \<open>'Error: signature does not match'\<close>,
  \<^item> \<open>'An error was encountered while trying to verify the signature: ' + error\<close>.
\<close>

datatype error =
    ExpiredChallengeError
  | InvalidSignatureError
  | VerificationError string

text \<open>
  A promise is pending until its executor calls \<open>resolve\<close> or \<open>reject\<close>; the first call
  settles it and every later call is ignored. Neither call ends the executor.
\<close>

datatype 'a promise = Pending | Resolved 'a | Rejected error

definition resolve :: "'a \<Rightarrow> 'a promise \<Rightarrow> 'a promise" where
  "resolve v p = (case p of Pending \<Rightarrow> Resolved v | _ \<Rightarrow> p)"

definition reject :: "error \<Rightarrow> 'a promise \<Rightarrow> 'a promise" where
  "reject e p = (case p of Pending \<Rightarrow> Rejected e | _ \<Rightarrow> p)"

definition is_Resolved :: "'a promise \<Rightarrow> bool" where
  "is_Resolved p = (case p of Resolved v \<Rightarrow> True | _ \<Rightarrow> False)"

definition is_Rejected :: "'a promise \<Rightarrow> bool" where
  "is_Rejected p = (case p of Rejected e \<Rightarrow> True | _ \<Rightarrow> False)"

section \<open>The class \<open>Blockchain\<close>\<close>

text \<open>
  Each method is modelled for one call that runs to completion with no other call
  interleaved: it takes the ledger and returns the ledger it leaves with the state of
  the promise it returned. Calls of \<open>_addBlock\<close> that are in flight together are
  modelled further down, from the two halves of \<open>_addBlock\<close>.
\<close>

record blockchain =
  chain :: "block list"
  chain_height :: int

text \<open>
  \<open>getChainHeight\<close>: its promise always resolves, with the cached height; the model is
  the value it resolves with.
\<close>

definition getChainHeight :: "blockchain \<Rightarrow> int" where
  "getChainHeight self = chain_height self"

subsection \<open>\<open>validateChain\<close>\<close>

text \<open>String concatenation with a value that may be \<open>null\<close>.\<close>

definition js_string :: "string option \<Rightarrow> string" where
  "js_string v = (case v of None \<Rightarrow> ''null'' | Some s \<Rightarrow> s)"

text \<open>
  One callback of the \<open>forEach\<close>, on the shared variables \<open>previousHash\<close> and
  \<open>errorLog\<close>. A rejection of \<open>validate\<close> is pushed by the \<open>catch\<close> handler, whose
  result (the new length of the array) is truthy, so that nothing else is pushed for it.
\<close>

definition validateChain_callback ::
  "libs \<Rightarrow> string option \<times> string list \<Rightarrow> block \<Rightarrow> string option \<times> string list" where
  "validateChain_callback L st block =
     (let previousHash = fst st;
          errorLog = snd st;
          errorLog1 =
            (case validate L block of
               Inl error \<Rightarrow> errorLog @ [error]
             | Inr ok \<Rightarrow>
                 if \<not> ok
                 then errorLog @ [''block did not validate, for block.hash='' @ js_string (hash block)]
                 else errorLog);
          errorLog2 =
            (if height block > 0 \<and> previousHash \<noteq> previousBlockHash block
             then errorLog1 @ [''previousHash does not match, for block.hash='' @ js_string (hash block)]
             else errorLog1)
      in (hash block, errorLog2))"

text \<open>
  The promise resolves with the array \<open>errorLog\<close> itself. The callbacks are asynchronous:
  each one is suspended at its \<open>await\<close> when \<open>resolve(errorLog)\<close> runs, and they complete
  afterwards in chain order, pushing into that same array. \<open>errorLog_after L k self\<close> is
  the content of the array once the first \<open>k\<close> callbacks have completed (\<open>k = 0\<close>: at the
  moment of \<open>resolve\<close>); \<open>validateChain\<close> gives the content once all of them have.
\<close>

definition errorLog_after :: "libs \<Rightarrow> nat \<Rightarrow> blockchain \<Rightarrow> string list" where
  "errorLog_after L k self = snd (foldl (validateChain_callback L) (None, []) (take k (chain self)))"

definition validateChain :: "libs \<Rightarrow> blockchain \<Rightarrow> string list promise" where
  "validateChain L self = Resolved (errorLog_after L (length (chain self)) self)"

subsection \<open>\<open>_addBlock\<close>\<close>

text \<open>
  \<open>now\<close> is the reading of \<open>new Date().getTime()\<close>. The promise of \<open>getChainHeight\<close>
  is never rejected, so the \<open>catch\<close> handler on it never runs. When \<open>chainHeight >= 0\<close>
  and the chain has no element at that index, reading \<open>.hash\<close> of \<open>undefined\<close> throws
  inside the executor: nothing is pushed and the promise stays pending. The result of
  \<open>validateChain\<close> is awaited and dropped.
\<close>

definition addBlock :: "libs \<Rightarrow> int \<Rightarrow> blockchain \<Rightarrow> block \<Rightarrow> blockchain \<times> block promise" where
  "addBlock L now self block0 =
     (let block1 = block0\<lparr>time := Some (seconds_string now)\<rparr>;
          chainHeight = getChainHeight self;
          block2 = block1\<lparr>height := chainHeight + 1\<rparr>
      in if chainHeight \<ge> 0 \<and> index (chain self) (nat chainHeight) = None then (self, Pending)
         else
           (let block3 =
                  (if chainHeight \<ge> 0
                   then block2\<lparr>previousBlockHash := hash (chain self ! nat chainHeight)\<rparr>
                   else block2);
                block4 = block3\<lparr>hash := Some (SHA256 L (JSON_stringify L block3))\<rparr>;
                self' = self\<lparr>chain := chain self @ [block4], chain_height := chain_height self + 1\<rparr>;
                errors = validateChain L self'
            in (self', resolve block4 Pending)))"

text \<open>
  The two halves of \<open>_addBlock\<close>. The executor runs up to its first \<open>await\<close> (line
  122): by then it has set \<open>block.time\<close>, and \<open>getChainHeight\<close> has read the cached
  height. It resumes later with the height read then, on the ledger as it is by then.
\<close>

record pending_add =
  pending_block :: block
  pending_chainHeight :: int

definition addBlock_start :: "int \<Rightarrow> blockchain \<Rightarrow> block \<Rightarrow> pending_add" where
  "addBlock_start now self block0 =
     \<lparr>pending_block = block0\<lparr>time := Some (seconds_string now)\<rparr>,
      pending_chainHeight = getChainHeight self\<rparr>"

definition addBlock_resume :: "libs \<Rightarrow> blockchain \<Rightarrow> pending_add \<Rightarrow> blockchain \<times> block promise" where
  "addBlock_resume L self p =
     (let chainHeight = pending_chainHeight p;
          block2 = (pending_block p)\<lparr>height := chainHeight + 1\<rparr>
      in if chainHeight \<ge> 0 \<and> index (chain self) (nat chainHeight) = None then (self, Pending)
         else
           (let block3 =
                  (if chainHeight \<ge> 0
                   then block2\<lparr>previousBlockHash := hash (chain self ! nat chainHeight)\<rparr>
                   else block2);
                block4 = block3\<lparr>hash := Some (SHA256 L (JSON_stringify L block3))\<rparr>;
                self' = self\<lparr>chain := chain self @ [block4], chain_height := chain_height self + 1\<rparr>;
                errors = validateChain L self'
            in (self', resolve block4 Pending)))"

subsection \<open>The constructor and \<open>initializeChain\<close>\<close>

definition initializeChain :: "libs \<Rightarrow> int \<Rightarrow> blockchain \<Rightarrow> blockchain" where
  "initializeChain L now self =
     (if chain_height self = - 1
      then fst (addBlock L now self (new_Block L (GenesisPayload ''Genesis Block'')))
      else self)"

definition constructor :: "libs \<Rightarrow> int \<Rightarrow> blockchain" where
  "constructor L now = initializeChain L now \<lparr>chain = [], chain_height = - 1\<rparr>"

subsection \<open>\<open>requestMessageOwnershipVerification\<close>\<close>

definition requestMessageOwnershipVerification ::
  "int \<Rightarrow> blockchain \<Rightarrow> string \<Rightarrow> blockchain \<times> string promise" where
  "requestMessageOwnershipVerification now self address =
     (let message = address @ '':'' @ seconds_string now @ '':starRegistry''
      in (self, resolve message Pending))"

subsection \<open>\<open>submitStar\<close>\<close>

text \<open>The elapsed time the method computes, from the clock reading and the message.\<close>

definition timeDifference :: "int \<Rightarrow> string \<Rightarrow> js_number" where
  "timeDifference now message =
     (let time = parseInt (index (split CHR '':'' message) 1);
          currentTime = parseInt (Some (seconds_string now))
      in js_minus currentTime time)"

text \<open>
  \<open>now\<close> is the clock reading of the method itself, \<open>now_add\<close> the later one of
  \<open>_addBlock\<close>. The statements run in the order of the source, and a \<open>reject\<close> does not
  return from the executor.
\<close>

definition submitStar ::
  "libs \<Rightarrow> int \<Rightarrow> int \<Rightarrow> blockchain \<Rightarrow> string \<Rightarrow> string \<Rightarrow> string \<Rightarrow> star \<Rightarrow>
     blockchain \<times> block promise" where
  "submitStar L now now_add self address message signature star =
     (let p0 = Pending;
          p1 = (if js_gt (timeDifference now message) (5 * 60)
                then reject ExpiredChallengeError p0 else p0);
          p2 = (case verify L message address signature of
                  Inr ok \<Rightarrow> if \<not> ok then reject InvalidSignatureError p1 else p1
                | Inl error \<Rightarrow> reject (VerificationError error) p1);
          newBlock = new_Block L (StarPayload address message signature star);
          added = addBlock L now_add self newBlock
      in (fst added,
          (case snd added of
             Resolved b \<Rightarrow> resolve b p2
           | Rejected e \<Rightarrow> reject e p2
           | Pending \<Rightarrow> p2)))"

subsection \<open>Queries\<close>

text \<open>
  \<open>getBlockByHeight\<close>: the first block of \<open>chain.filter(p => p.height === height)\<close>, or
  \<open>null\<close> (\<open>None\<close>) when the filter is empty. The payload of the found block is only
  logged, inside a \<open>try\<close>.
\<close>

definition getBlockByHeight :: "blockchain \<Rightarrow> int \<Rightarrow> block option promise" where
  "getBlockByHeight self h =
     (case index (filter (\<lambda>p. height p = h) (chain self)) 0 of
        Some block \<Rightarrow> resolve (Some block) Pending
      | None \<Rightarrow> resolve None Pending)"

text \<open>
  One callback of the \<open>forEach\<close> in \<open>getStarsByWalletAddress\<close>: the \<open>then\<close> handler runs
  only when \<open>getBData\<close> fulfils. A genesis payload has no \<open>address\<close> property, and
  \<open>undefined\<close> is not equal to an address string.
\<close>

definition getStars_callback :: "libs \<Rightarrow> string \<Rightarrow> star list \<Rightarrow> block \<Rightarrow> star list" where
  "getStars_callback L address stars block =
     (case getBData L block of
        None \<Rightarrow> stars
      | Some blockData \<Rightarrow>
          (case blockData of
             GenesisPayload d \<Rightarrow> stars
           | StarPayload blockAddress message signature star \<Rightarrow>
               if address = blockAddress then stars @ [star] else stars))"

text \<open>
  The promise resolves with the array \<open>stars\<close> itself, and the \<open>then\<close> handlers
  registered during the \<open>forEach\<close> push into it in chain order. The model gives the content of
  the array once these handlers have run.
\<close>

definition getStarsByWalletAddress :: "libs \<Rightarrow> blockchain \<Rightarrow> string \<Rightarrow> star list promise" where
  "getStarsByWalletAddress L self address =
     resolve (foldl (getStars_callback L address) [] (drop 1 (chain self))) Pending"

section \<open>Calls in flight\<close>

text \<open>
  Nothing serializes the calls of \<open>_addBlock\<close>. \<open>Issue now data\<close> is a call with a
  fresh block of payload \<open>data\<close> (as \<open>submitStar\<close> and \<open>initializeChain\<close> make it) at
  the clock reading \<open>now\<close>: it runs to its first \<open>await\<close> and is suspended.
  \<open>Complete\<close> resumes the oldest suspended call, if there is one: the continuations run
  in the order in which the calls were issued. The state holds the ledger, the suspended
  calls and the promises of the completed ones.
\<close>

datatype event = Issue int payload | Complete

record run_state =
  ledger :: blockchain
  in_flight :: "pending_add list"
  settled :: "block promise list"

fun step :: "libs \<Rightarrow> run_state \<Rightarrow> event \<Rightarrow> run_state" where
  "step L st (Issue now data) =
     st\<lparr>in_flight := in_flight st @ [addBlock_start now (ledger st) (new_Block L data)]\<rparr>"
| "step L st Complete =
     (case in_flight st of
        [] \<Rightarrow> st
      | p # ps \<Rightarrow>
          \<lparr>ledger = fst (addBlock_resume L (ledger st) p), in_flight = ps,
           settled = settled st @ [snd (addBlock_resume L (ledger st) p)]\<rparr>)"

definition run :: "libs \<Rightarrow> event list \<Rightarrow> run_state \<Rightarrow> run_state" where
  "run L es st = foldl (step L) st es"

text \<open>
  What \<open>new Blockchain()\<close> leaves when it returns: the constructor does not await
  \<open>initializeChain\<close>, so the append of the genesis block is issued and not yet completed.
\<close>

definition new_Blockchain :: "libs \<Rightarrow> int \<Rightarrow> run_state" where
  "new_Blockchain L now =
     (let self = \<lparr>chain = [], chain_height = - 1\<rparr>
      in \<lparr>ledger = self,
          in_flight =
            (if chain_height self = - 1
             then [addBlock_start now self (new_Block L (GenesisPayload ''Genesis Block''))]
             else []),
          settled = []\<rparr>)"

section \<open>Notions of the specification\<close>

text \<open>
  The ledger's cached height is the length of the chain minus one.
\<close>

definition height_cached :: "blockchain \<Rightarrow> bool" where
  "height_cached self = (chain_height self = int (length (chain self)) - 1)"

text \<open>
  A sequence of appends of which each one completes before the next is issued: each
  element is the clock reading of one call of \<open>_addBlock\<close> and the payload of the fresh
  block it is given.
\<close>

fun appends :: "libs \<Rightarrow> (int \<times> payload) list \<Rightarrow> blockchain \<Rightarrow> blockchain" where
  "appends L [] self = self"
| "appends L (op # ops) self =
     appends L ops (fst (addBlock L (fst op) self (new_Block L (snd op))))"

text \<open>The same sequence as events: every call is completed before the next is issued.\<close>

fun sequential :: "(int \<times> payload) list \<Rightarrow> event list" where
  "sequential [] = []"
| "sequential (op # ops) = Issue (fst op) (snd op) # Complete # sequential ops"

text \<open>
  The chain as the appends leave it, read from the front: every block stands at its
  height, carries the digest of its own content, and names the hash of the block before
  it (\<open>prev\<close>; nothing before the first).
\<close>

fun sealed_from :: "libs \<Rightarrow> int \<Rightarrow> string option \<Rightarrow> block list \<Rightarrow> bool" where
  "sealed_from L h prev [] = True"
| "sealed_from L h prev (b # bs) =
     (height b = h \<and> hash b = Some (recomputed_digest L b) \<and> previousBlockHash b = prev \<and>
      sealed_from L (h + 1) (hash b) bs)"

definition ledger_sealed :: "libs \<Rightarrow> blockchain \<Rightarrow> bool" where
  "ledger_sealed L self = (height_cached self \<and> chain self \<noteq> [] \<and> sealed_from L 0 None (chain self))"

text \<open>
  Following the spec's words: the \<open>star\<close> fields of the blocks after the genesis block
  whose decoded payload has the queried address, in chain order.
\<close>

definition stars_of_wallet :: "libs \<Rightarrow> string \<Rightarrow> block list \<Rightarrow> star list" where
  "stars_of_wallet L address bs =
     [star. b \<leftarrow> drop 1 bs, Some (StarPayload a m s star) \<leftarrow> [getBData L b], a = address]"

text \<open>
  Following the spec's words: the message has the three colon-delimited parts
  \<open>{address}:{timestamp}:starRegistry\<close>, the timestamp being decimal digits.
\<close>

definition three_part :: "string \<Rightarrow> string \<Rightarrow> bool" where
  "three_part address message =
     (case split CHR '':'' message of
        [a, t, r] \<Rightarrow> a = address \<and> t \<noteq> [] \<and> list_all (is_radix_digit 10) t \<and> r = ''starRegistry''
      | _ \<Rightarrow> False)"

text \<open>
  A character that \<open>parseInt\<close> reads as a decimal digit and as nothing else (white
  space, sign or radix prefix).
\<close>

definition plain_digit :: "char \<Rightarrow> bool" where
  "plain_digit c = (is_radix_digit 10 c \<and> \<not> isWhiteSpace c \<and> c \<noteq> CHR ''-'' \<and> c \<noteq> CHR ''+'' \<and>
     c \<noteq> CHR ''x'' \<and> c \<noteq> CHR ''X'')"

section \<open>Example instances\<close>

text \<open>
  Small instances of the library functions, and a ledger built with them, on which the
  model is evaluated: a checksum for the digest, a field list for the serialization, a
  signature that is valid when it names the address and the message, and a
  semicolon-separated payload encoding.
\<close>

definition example_SHA256 :: "string \<Rightarrow> string" where
  "example_SHA256 s = digits (foldl (\<lambda>a c. (a * 31 + of_char c) mod 65521) 7 s)"

definition example_stringify :: "block \<Rightarrow> string" where
  "example_stringify b =
     js_string (hash b) @ ''|'' @ Number_toString (height b) @ ''|'' @ body b @ ''|'' @
     js_string (time b) @ ''|'' @ js_string (previousBlockHash b)"

definition example_verify :: "string \<Rightarrow> string \<Rightarrow> string \<Rightarrow> string + bool" where
  "example_verify message address signature =
     (if signature = [] then Inl ''Invalid signature length''
      else Inr (signature = address @ ''/'' @ message))"

definition example_encode :: "payload \<Rightarrow> string" where
  "example_encode data =
     (case data of
        GenesisPayload d \<Rightarrow> ''G;'' @ d
      | StarPayload a m s st \<Rightarrow> ''S;'' @ a @ '';'' @ m @ '';'' @ s @ '';'' @ st)"

definition example_decode :: "string \<Rightarrow> payload option" where
  "example_decode b =
     (case split CHR '';'' b of
        [t, d] \<Rightarrow> if t = ''G'' then Some (GenesisPayload d) else None
      | [t, a, m, s, st] \<Rightarrow> if t = ''S'' then Some (StarPayload a m s st) else None
      | _ \<Rightarrow> None)"

definition example_libs :: libs where
  "example_libs =
     \<lparr>SHA256 = example_SHA256, JSON_stringify = example_stringify, verify = example_verify,
      encodeData = example_encode, getBData = (\<lambda>b. example_decode (body b))\<rparr>"

definition example_ledger :: blockchain where
  "example_ledger = constructor example_libs 1700000000123"

definition example_appends :: "(int \<times> payload) list" where
  "example_appends =
     [(1700000100456, StarPayload ''addr'' ''addr:1700000100:starRegistry'' ''addr/addr:1700000100:starRegistry'' ''Sirius''),
      (1700000200456, StarPayload ''other'' ''other:1700000200:starRegistry'' ''other/other:1700000200:starRegistry'' ''Vega''),
      (1700000300456, StarPayload ''addr'' ''addr:1700000300:starRegistry'' ''forged'' ''Deneb'')]"

text \<open>
  Two appends issued, after the genesis append has completed, before either of them
  completes; and one append issued before the genesis append of the constructor has
  completed.
\<close>

definition example_raced :: run_state where
  "example_raced =
     run example_libs
       [Complete,
        Issue 1700000100456 (StarPayload ''addr'' ''addr:1700000100:starRegistry'' ''addr/addr:1700000100:starRegistry'' ''Sirius''),
        Issue 1700000100457 (StarPayload ''other'' ''other:1700000100:starRegistry'' ''other/other:1700000100:starRegistry'' ''Vega''),
        Complete, Complete]
       (new_Blockchain example_libs 1700000000123)"

definition example_same_tick :: run_state where
  "example_same_tick =
     run example_libs
       [Issue 1700000000124 (StarPayload ''addr'' ''addr:1700000000:starRegistry'' ''addr/addr:1700000000:starRegistry'' ''Sirius''),
        Complete, Complete]
       (new_Blockchain example_libs 1700000000123)"

section \<open>Properties of the string functions\<close>

lemma digits_ge10: "10 \<le> n \<Longrightarrow> digits n = digits (n div 10) @ [digit_char (n mod 10)]"
  by (subst digits.simps) simp

lemma seconds_string_div:
  assumes "1000 \<le> now"
  shows "seconds_string now = Number_toString (now div 1000)"
proof -
  have a: "digits now = digits (now div 10) @ [digit_char (now mod 10)]"
    using assms by (simp add: digits_ge10)
  have b: "digits (now div 10) = digits (now div 10 div 10) @ [digit_char (now div 10 mod 10)]"
    using assms by (simp add: digits_ge10)
  have c: "digits (now div 10 div 10) =
      digits (now div 10 div 10 div 10) @ [digit_char (now div 10 div 10 mod 10)]"
    using assms by (simp add: digits_ge10)
  have d: "now div 10 div 10 div 10 = now div 1000"
    by (simp add: div_mult2_eq [symmetric])
  have "slice_0_minus3 (digits now) = digits (now div 1000)"
    unfolding slice_0_minus3_def a b c d by simp
  moreover have "0 \<le> now div 1000" using assms by simp
  ultimately show ?thesis
    using assms by (simp add: seconds_string_def Number_toString_def)
qed

text \<open>\<open>parseInt\<close> reads back the decimal string of a number that is not negative.\<close>

lemma of_char_digit_char: "0 \<le> d \<Longrightarrow> d < 10 \<Longrightarrow> (of_char (digit_char d) :: int) = 48 + d"
  by (simp add: digit_char_def)

lemma digit_value_digit_char: "0 \<le> d \<Longrightarrow> d < 10 \<Longrightarrow> digit_value (digit_char d) = Some d"
  by (simp add: digit_value_def of_char_digit_char)

lemma digit_char_plain:
  assumes "0 \<le> d" and "d < 10"
  shows "is_radix_digit 10 (digit_char d)" and "\<not> isWhiteSpace (digit_char d)"
    and "digit_char d \<noteq> CHR ''-''" and "digit_char d \<noteq> CHR ''+''"
    and "digit_char d \<noteq> CHR ''x''" and "digit_char d \<noteq> CHR ''X''"
proof -
  show "is_radix_digit 10 (digit_char d)"
    using assms by (simp add: is_radix_digit_def digit_value_digit_char)
  show "\<not> isWhiteSpace (digit_char d)"
    using assms by (simp add: isWhiteSpace_def of_char_digit_char)
  have "(of_char (digit_char d) :: int) \<noteq> of_char c"
    if "(of_char c :: int) < 48 \<or> 57 < (of_char c :: int)" for c
    using assms that by (auto simp: of_char_digit_char)
  then have ne: "digit_char d \<noteq> c"
    if "(of_char c :: int) < 48 \<or> 57 < (of_char c :: int)" for c
    using that by fastforce
  show "digit_char d \<noteq> CHR ''-''" by (rule ne) simp
  show "digit_char d \<noteq> CHR ''+''" by (rule ne) simp
  show "digit_char d \<noteq> CHR ''x''" by (rule ne) simp
  show "digit_char d \<noteq> CHR ''X''" by (rule ne) simp
qed

lemma plain_digit_char: "0 \<le> d \<Longrightarrow> d < 10 \<Longrightarrow> plain_digit (digit_char d)"
  unfolding plain_digit_def using digit_char_plain [of d] by blast

lemma digits_plain: "0 \<le> n \<Longrightarrow> digits n \<noteq> [] \<and> list_all plain_digit (digits n)"
proof (induction n rule: digits.induct)
  case (1 n)
  show ?case
  proof (cases "n < 10")
    case True
    with "1.prems" show ?thesis
      by (subst (1 2) digits.simps) (simp add: plain_digit_char)
  next
    case False
    then have "list_all plain_digit (digits (n div 10))"
      using "1.IH" "1.prems" by simp
    moreover have "plain_digit (digit_char (n mod 10))"
      by (rule plain_digit_char) simp_all
    ultimately show ?thesis
      using False by (subst (1 2) digits.simps) simp
  qed
qed

lemma radix_value_snoc:
  "radix_value R (Z @ [c]) = radix_value R Z * R + (case digit_value c of None \<Rightarrow> 0 | Some v \<Rightarrow> v)"
  by (simp add: radix_value_def)

lemma radix_value_digits: "0 \<le> n \<Longrightarrow> radix_value 10 (digits n) = n"
proof (induction n rule: digits.induct)
  case (1 n)
  show ?case
  proof (cases "n < 10")
    case True
    with "1.prems" show ?thesis
      by (subst digits.simps) (simp add: radix_value_def digit_value_digit_char)
  next
    case False
    then have "radix_value 10 (digits (n div 10)) = n div 10"
      using "1.IH" "1.prems" by simp
    moreover have "digit_value (digit_char (n mod 10)) = Some (n mod 10)"
      by (rule digit_value_digit_char) simp_all
    ultimately show ?thesis
      using False by (subst digits.simps) (simp add: radix_value_snoc)
  qed
qed

lemma parseInt_plain:
  assumes "Z \<noteq> []" and "list_all plain_digit Z"
  shows "parseInt (Some Z) = Some (radix_value 10 Z)"
proof -
  from assms obtain c cs where Z: "Z = c # cs" by (cases Z) auto
  with assms(2) have c: "plain_digit c" and cs: "list_all plain_digit cs" by simp_all
  from c have d: "dropWhile isWhiteSpace Z = Z"
    by (simp add: Z plain_digit_def)
  from c have s: "take 1 Z \<noteq> ''-''" "take 1 Z \<noteq> ''+''"
    by (simp_all add: Z plain_digit_def)
  have x: "take 2 Z \<noteq> ''0x''" "take 2 Z \<noteq> ''0X''"
    using cs by (cases cs; simp add: Z plain_digit_def)+
  have t: "takeWhile (is_radix_digit 10) Z = Z"
    using assms(2) by (simp add: takeWhile_eq_all_conv list_all_iff plain_digit_def)
  show ?thesis
    using assms(1) d s x t by (simp add: parseInt_def Let_def del: takeWhile_eq_all_conv)
qed

lemma parseInt_digits: "0 \<le> n \<Longrightarrow> parseInt (Some (digits n)) = Some n"
  using digits_plain [of n] by (simp add: parseInt_plain radix_value_digits)

lemma currentTime_seconds:
  assumes "1000 \<le> now"
  shows "parseInt (Some (seconds_string now)) = Some (now div 1000)"
proof -
  from assms have "0 \<le> now div 1000" by simp
  then show ?thesis
    using assms by (simp add: seconds_string_div Number_toString_def parseInt_digits)
qed

lemma timeDifference_seconds:
  assumes "1000 \<le> now"
  shows "timeDifference now message =
           js_minus (Some (now div 1000)) (parseInt (index (split CHR '':'' message) 1))"
  using assms by (simp add: timeDifference_def currentTime_seconds)

text \<open>
  The second field of a challenge message, as \<open>requestMessageOwnershipVerification\<close>
  builds it for an address without a colon, is read back as the time of issue in seconds.
\<close>

lemma split_no_sep: "sep \<notin> set s \<Longrightarrow> split sep s = [s]"
  by (induction s) auto

lemma split_at_sep: "sep \<notin> set a \<Longrightarrow> split sep (a @ sep # rest) = a # split sep rest"
proof (induction a)
  case Nil
  show ?case by simp
next
  case (Cons c a)
  then show ?case by (cases "split sep rest") auto
qed

lemma digits_no_colon: "0 \<le> n \<Longrightarrow> CHR '':'' \<notin> set (digits n)"
proof -
  assume "0 \<le> n"
  then have "list_all plain_digit (digits n)" by (simp add: digits_plain)
  moreover have "\<not> plain_digit CHR '':''"
    by (simp add: plain_digit_def is_radix_digit_def digit_value_def)
  ultimately show ?thesis by (auto simp: list_all_iff)
qed

lemma challenge_timestamp:
  assumes "CHR '':'' \<notin> set address" and "1000 \<le> issued"
  shows "parseInt (index (split CHR '':'' (address @ '':'' @ seconds_string issued @ '':starRegistry'')) 1) =
           Some (issued div 1000)"
proof -
  from assms(2) have n: "0 \<le> issued div 1000" by simp
  have s: "seconds_string issued = digits (issued div 1000)"
    using assms(2) n by (simp add: seconds_string_div Number_toString_def)
  have "split CHR '':'' (address @ '':'' @ digits (issued div 1000) @ '':starRegistry'') =
      address # split CHR '':'' (digits (issued div 1000) @ '':starRegistry'')"
    using split_at_sep [OF assms(1)] by simp
  also have "split CHR '':'' (digits (issued div 1000) @ '':starRegistry'') =
      digits (issued div 1000) # split CHR '':'' ''starRegistry''"
    using split_at_sep [OF digits_no_colon [OF n]] by simp
  finally show ?thesis
    using n by (simp add: s index_def parseInt_digits)
qed

section \<open>Settling a promise\<close>

lemma resolve_Pending [simp]: "resolve v Pending = Resolved v"
  by (simp add: resolve_def)

lemma reject_Pending [simp]: "reject e Pending = Rejected e"
  by (simp add: reject_def)

lemma resolve_Rejected [simp]: "resolve v (Rejected e) = Rejected e"
  by (simp add: resolve_def)

lemma reject_Rejected [simp]: "reject e' (Rejected e) = Rejected e"
  by (simp add: reject_def)

section \<open>The append operation\<close>

lemma index_last: "xs \<noteq> [] \<Longrightarrow> index xs (length xs - 1) = Some (last xs)"
  by (simp add: index_def last_conv_nth)

lemma addBlock_cached:
  assumes "height_cached self"
  shows "\<exists>b. addBlock L now self block0 =
           (self\<lparr>chain := chain self @ [b], chain_height := chain_height self + 1\<rparr>, Resolved b) \<and>
         body b = body block0 \<and> time b = Some (seconds_string now) \<and>
         height b = int (length (chain self)) \<and>
         previousBlockHash b =
           (if chain self = [] then previousBlockHash block0 else hash (last (chain self))) \<and>
         hash b = Some (SHA256 L (JSON_stringify L (b\<lparr>hash := hash block0\<rparr>)))"
proof (cases "chain self = []")
  case True
  with assms have "chain_height self = - 1" by (simp add: height_cached_def)
  with True show ?thesis by (simp add: addBlock_def getChainHeight_def Let_def)
next
  case False
  then obtain n where n: "length (chain self) = Suc n"
    by (cases "chain self") auto
  with assms have h: "chain_height self = int n"
    by (simp add: height_cached_def)
  have i: "index (chain self) n = Some (last (chain self))"
    using False n index_last [of "chain self"] by simp
  have l: "chain self ! n = last (chain self)"
    using False n by (simp add: last_conv_nth)
  show ?thesis
    using False n h i l by (simp add: addBlock_def getChainHeight_def Let_def)
qed


lemma addBlock_keeps_cache:
  assumes "height_cached self"
  shows "height_cached (fst (addBlock L now self block0))"
proof -
  from addBlock_cached [OF assms, of L now block0] obtain b where
    "addBlock L now self block0 =
       (self\<lparr>chain := chain self @ [b], chain_height := chain_height self + 1\<rparr>, Resolved b)"
    by blast
  with assms show ?thesis by (simp add: height_cached_def)
qed

section \<open>Sealed chains\<close>

lemma sealed_from_snoc:
  "sealed_from L h prev (bs @ [b]) =
     (sealed_from L h prev bs \<and> height b = h + int (length bs) \<and>
      hash b = Some (recomputed_digest L b) \<and>
      previousBlockHash b = (if bs = [] then prev else hash (last bs)))"
proof (induction bs arbitrary: h prev)
  case Nil
  show ?case by simp
next
  case (Cons a bs)
  show ?case by (simp add: Cons.IH) (auto simp: algebra_simps)
qed

lemma sealed_from_nth:
  assumes "sealed_from L h prev bs" and "i < length bs"
  shows "height (bs ! i) = h + int i \<and> hash (bs ! i) = Some (recomputed_digest L (bs ! i)) \<and>
         previousBlockHash (bs ! i) = (if i = 0 then prev else hash (bs ! (i - 1)))"
  using assms
proof (induction bs arbitrary: h prev i)
  case Nil
  then show ?case by simp
next
  case (Cons a bs)
  show ?case
  proof (cases i)
    case 0
    with Cons.prems show ?thesis by simp
  next
    case (Suc j)
    with Cons.prems have "sealed_from L (h + 1) (hash a) bs" and "j < length bs"
      by auto
    from Cons.IH [OF this] Suc show ?thesis
      by (cases j) simp_all
  qed
qed

lemma sealed_from_take: "sealed_from L h prev bs \<Longrightarrow> sealed_from L h prev (take k bs)"
proof (induction bs arbitrary: h prev k)
  case Nil
  then show ?case by simp
next
  case (Cons a bs)
  then show ?case by (cases k) auto
qed

lemma validate_sealed: "hash b = Some (recomputed_digest L b) \<Longrightarrow> validate L b = Inr True"
  by (simp add: validate_def)

lemma sealed_from_scan:
  assumes "sealed_from L h prev bs"
  shows "snd (foldl (validateChain_callback L) (prev, log) bs) = log"
  using assms
proof (induction bs arbitrary: h prev)
  case Nil
  show ?case by simp
next
  case (Cons a bs)
  from Cons.prems have rest: "sealed_from L (h + 1) (hash a) bs"
    by auto
  from Cons.prems have "validateChain_callback L (prev, log) a = (hash a, log)"
    by (simp add: validateChain_callback_def validate_sealed)
  with Cons.IH [OF rest] show ?case by simp
qed

section \<open>Appending keeps the chain sealed\<close>

lemma addBlock_fresh_hash:
  assumes "height_cached self" and "hash block0 = None"
  shows "\<exists>b. addBlock L now self block0 =
           (self\<lparr>chain := chain self @ [b], chain_height := chain_height self + 1\<rparr>, Resolved b) \<and>
         body b = body block0 \<and> time b = Some (seconds_string now) \<and>
         height b = int (length (chain self)) \<and>
         previousBlockHash b =
           (if chain self = [] then previousBlockHash block0 else hash (last (chain self))) \<and>
         hash b = Some (recomputed_digest L b)"
proof -
  from addBlock_cached [OF assms(1), of L now block0] obtain b where
    b: "addBlock L now self block0 =
           (self\<lparr>chain := chain self @ [b], chain_height := chain_height self + 1\<rparr>, Resolved b)"
      "body b = body block0" "time b = Some (seconds_string now)"
      "height b = int (length (chain self))"
      "previousBlockHash b =
           (if chain self = [] then previousBlockHash block0 else hash (last (chain self)))"
      "hash b = Some (SHA256 L (JSON_stringify L (b\<lparr>hash := hash block0\<rparr>)))"
    by blast
  from b(6) assms(2) have "hash b = Some (recomputed_digest L b)"
    by (simp add: recomputed_digest_def)
  with b show ?thesis by blast
qed

lemma constructor_sealed: "ledger_sealed L (constructor L now)"
proof -
  let ?e = "\<lparr>chain = [], chain_height = - 1\<rparr>"
  have c: "height_cached ?e" by (simp add: height_cached_def)
  have "hash (new_Block L (GenesisPayload ''Genesis Block'')) = None"
    by (simp add: new_Block_def)
  from addBlock_fresh_hash [OF c this, of L now] obtain b where
    "addBlock L now ?e (new_Block L (GenesisPayload ''Genesis Block'')) =
       (?e\<lparr>chain := chain ?e @ [b], chain_height := chain_height ?e + 1\<rparr>, Resolved b)"
    "height b = int (length (chain ?e))" "hash b = Some (recomputed_digest L b)"
    "previousBlockHash b =
       (if chain ?e = [] then previousBlockHash (new_Block L (GenesisPayload ''Genesis Block''))
        else hash (last (chain ?e)))"
    by blast
  then show ?thesis
    by (simp add: constructor_def initializeChain_def ledger_sealed_def height_cached_def new_Block_def)
qed

lemma addBlock_sealed:
  assumes "ledger_sealed L self"
  shows "ledger_sealed L (fst (addBlock L now self (new_Block L data)))"
proof -
  from assms have c: "height_cached self" and ne: "chain self \<noteq> []"
    and s: "sealed_from L 0 None (chain self)"
    by (simp_all add: ledger_sealed_def)
  have "hash (new_Block L data) = None" by (simp add: new_Block_def)
  from addBlock_fresh_hash [OF c this, of L now] obtain b where
    b: "addBlock L now self (new_Block L data) =
       (self\<lparr>chain := chain self @ [b], chain_height := chain_height self + 1\<rparr>, Resolved b)"
    "height b = int (length (chain self))" "hash b = Some (recomputed_digest L b)"
    "previousBlockHash b =
       (if chain self = [] then previousBlockHash (new_Block L data) else hash (last (chain self)))"
    by blast
  have "height_cached (fst (addBlock L now self (new_Block L data)))"
    using c by (rule addBlock_keeps_cache)
  moreover have "sealed_from L 0 None (chain self @ [b])"
    using s ne b(2-4) by (simp add: sealed_from_snoc)
  ultimately show ?thesis using b(1) by (simp add: ledger_sealed_def)
qed

lemma appends_sealed:
  "ledger_sealed L self \<Longrightarrow> ledger_sealed L (appends L ops self)"
proof (induction ops arbitrary: self)
  case Nil
  then show ?case by simp
next
  case (Cons op ops)
  from Cons.prems have "ledger_sealed L (fst (addBlock L (fst op) self (new_Block L (snd op))))"
    by (rule addBlock_sealed)
  then show ?case by (simp add: Cons.IH)
qed

section \<open>Appends completed one after another\<close>

lemma addBlock_split:
  "addBlock L now self block0 = addBlock_resume L self (addBlock_start now self block0)"
  by (simp add: addBlock_def addBlock_resume_def addBlock_start_def Let_def)

lemma run_Nil: "run L [] st = st"
  by (simp add: run_def)

lemma run_Cons: "run L (e # es) st = run L es (step L st e)"
  by (simp add: run_def)

lemma run_sequential:
  assumes "in_flight st = []"
  shows "ledger (run L (sequential ops) st) = appends L ops (ledger st) \<and>
         in_flight (run L (sequential ops) st) = []"
  using assms
proof (induction ops arbitrary: st)
  case Nil
  then show ?case by (simp add: run_Nil)
next
  case (Cons op ops)
  let ?st = "step L (step L st (Issue (fst op) (snd op))) Complete"
  from Cons.prems have l: "ledger ?st = fst (addBlock L (fst op) (ledger st) (new_Block L (snd op)))"
    and f: "in_flight ?st = []"
    by (simp_all add: addBlock_split)
  from Cons.IH [OF f] l show ?case by (simp add: run_Cons)
qed

lemma new_Blockchain_completed:
  "ledger (step L (new_Blockchain L now) Complete) = constructor L now \<and>
   in_flight (step L (new_Blockchain L now) Complete) = []"
  by (simp add: new_Blockchain_def constructor_def initializeChain_def addBlock_split Let_def)

lemma run_completed_sequential:
  "ledger (run L (Complete # sequential ops) (new_Blockchain L t0)) = appends L ops (constructor L t0)"
  using run_sequential [of "step L (new_Blockchain L t0) Complete" L ops] new_Blockchain_completed [of L t0]
  by (simp add: run_Cons)

section \<open>The queries\<close>

lemma getStars_callback_append:
  "getStars_callback L address acc b =
     acc @ [star. Some (StarPayload a m s star) \<leftarrow> [getBData L b], a = address]"
  by (simp add: getStars_callback_def split: option.splits payload.splits)

lemma getStars_foldl:
  "foldl (getStars_callback L address) acc bs =
     acc @ [star. b \<leftarrow> bs, Some (StarPayload a m s star) \<leftarrow> [getBData L b], a = address]"
proof (induction bs arbitrary: acc)
  case Nil
  show ?case by simp
next
  case (Cons b bs)
  have "foldl (getStars_callback L address) acc (b # bs) =
      foldl (getStars_callback L address) (getStars_callback L address acc b) bs"
    by simp
  also have "\<dots> = getStars_callback L address acc b @
      [star. b \<leftarrow> bs, Some (StarPayload a m s star) \<leftarrow> [getBData L b], a = address]"
    by (rule Cons.IH)
  also have "getStars_callback L address acc b =
      acc @ [star. Some (StarPayload a m s star) \<leftarrow> [getBData L b], a = address]"
    by (rule getStars_callback_append)
  finally show ?case by simp
qed

lemma getBlockByHeight_no_match:
  assumes "\<forall>b \<in> set (chain self). height b \<noteq> h"
  shows "getBlockByHeight self h = Resolved None"
proof -
  from assms have "filter (\<lambda>p. height p = h) (chain self) = []"
    by (simp add: filter_empty_conv)
  then show ?thesis by (simp add: getBlockByHeight_def index_def)
qed

lemma appends_heights:
  assumes "b \<in> set (chain (appends L ops (constructor L t0)))"
  shows "height b < int (length (chain (appends L ops (constructor L t0))))"
proof -
  have "ledger_sealed L (appends L ops (constructor L t0))"
    by (rule appends_sealed) (rule constructor_sealed)
  then have s: "sealed_from L 0 None (chain (appends L ops (constructor L t0)))"
    by (simp add: ledger_sealed_def)
  from assms obtain i where i: "i < length (chain (appends L ops (constructor L t0)))"
    and b: "chain (appends L ops (constructor L t0)) ! i = b"
    by (auto simp: in_set_conv_nth)
  from sealed_from_nth [OF s i] b have "height b = int i" by simp
  with i show ?thesis by simp
qed

section \<open>The promise of \<open>submitStar\<close>\<close>

lemma submitStar_ledger:
  "fst (submitStar L now now_add self address message signature star) =
     fst (addBlock L now_add self (new_Block L (StarPayload address message signature star)))"
  by (simp add: submitStar_def Let_def)

lemma submitStar_promise:
  assumes "height_cached self"
  shows "snd (submitStar L now now_add self address message signature star) =
     (if js_gt (timeDifference now message) (5 * 60) then Rejected ExpiredChallengeError
      else (case verify L message address signature of
              Inl error \<Rightarrow> Rejected (VerificationError error)
            | Inr ok \<Rightarrow>
                if ok then Resolved (last (chain (fst (submitStar L now now_add self address message signature star))))
                else Rejected InvalidSignatureError))"
proof -
  from addBlock_cached [OF assms, of L now_add "new_Block L (StarPayload address message signature star)"]
  obtain b where
    "addBlock L now_add self (new_Block L (StarPayload address message signature star)) =
       (self\<lparr>chain := chain self @ [b], chain_height := chain_height self + 1\<rparr>, Resolved b)"
    by blast
  then show ?thesis
    by (simp add: submitStar_def Let_def split: sum.splits)
qed

lemma submitStar_expired_elapsed:
  assumes "js_gt (timeDifference now message) (5 * 60)"
  shows "snd (submitStar L now now_add self address message signature star) =
           Rejected ExpiredChallengeError"
  using assms by (simp add: submitStar_def Let_def split: sum.splits promise.splits)

lemma example_ledger_cached: "height_cached example_ledger"
  using constructor_sealed [of example_libs 1700000000123]
  by (simp add: example_ledger_def ledger_sealed_def)

text \<open>
  C1. When the current time in seconds exceeds the timestamp embedded in the message (the
  number that \<open>parseInt\<close> reads in its second colon-delimited field) by more than 300,
  the promise of \<open>submitStar\<close> is rejected as expired, whatever the library functions
  are: the rejection is called before \<open>verify\<close>, and neither a valid signature nor a
  throwing \<open>verify\<close> changes the settled promise.
\<close>

theorem submitStar_expired:
  assumes "1000 \<le> now"
    and "parseInt (index (split CHR '':'' message) 1) = Some embeddedTimestamp"
    and "300 < now div 1000 - embeddedTimestamp"
  shows "snd (submitStar L now now_add self address message signature star) =
           Rejected ExpiredChallengeError"
proof -
  from assms have "js_gt (timeDifference now message) (5 * 60)"
    by (simp add: timeDifference_seconds js_minus_def js_gt_def)
  then show ?thesis by (rule submitStar_expired_elapsed)
qed

theorem submitStar_expired_witness:
  "parseInt (index (split CHR '':'' ''addr:1700000000:starRegistry'') 1) = Some 1700000000 \<and>
   verify example_libs ''addr:1700000000:starRegistry'' ''addr'' ''addr/addr:1700000000:starRegistry'' = Inr True \<and>
   snd (submitStar example_libs 1700000301123 1700000301456 example_ledger
          ''addr'' ''addr:1700000000:starRegistry'' ''addr/addr:1700000000:starRegistry'' ''Sirius'') =
     Rejected ExpiredChallengeError"
proof -
  have n: "(1000::int) \<le> 1700000301123" by simp
  have t: "parseInt (index (split CHR '':'' ''addr:1700000000:starRegistry'') 1) = Some 1700000000"
    by code_simp
  have e: "(300::int) < 1700000301123 div 1000 - 1700000000" by simp
  have v: "verify example_libs ''addr:1700000000:starRegistry'' ''addr'' ''addr/addr:1700000000:starRegistry'' = Inr True"
    by code_simp
  from t v submitStar_expired [OF n t e, of example_libs 1700000301456 example_ledger "''addr''"
      "''addr/addr:1700000000:starRegistry''" "''Sirius''"]
  show ?thesis by simp
qed

text \<open>
  C2, counterexample. A message without the three-part structure does not make
  \<open>submitStar\<close> fail: for the message \<open>garbage\<close> and a signature that verifies, the
  promise resolves.
\<close>

theorem submitStar_malformed_counterexample:
  "\<not> three_part ''addr'' ''garbage'' \<and>
   is_Resolved (snd (submitStar example_libs 1700000200123 1700000200456 example_ledger
     ''addr'' ''garbage'' ''addr/garbage'' ''Sirius''))"
  by code_simp

text \<open>
  C2, as amended. \<open>submitStar\<close> makes no check of the structure of the message. For a
  message without the three-part structure the promise settles as for any other message:
  it is rejected as expired when the elapsed time the method computes (the current time
  in seconds minus \<open>parseInt\<close> of the second colon-delimited field) is a number above
  300; otherwise (in particular when that field is missing or not a number, so that the
  elapsed time is \<open>NaN\<close>) it is rejected with the verification error when \<open>verify\<close>
  throws, rejected for a signature mismatch when \<open>verify\<close> returns false, and resolved
  with the appended block when \<open>verify\<close> returns true.
\<close>

theorem submitStar_malformed_outcome:
  assumes "\<not> three_part address message" and "height_cached self"
  shows "snd (submitStar L now now_add self address message signature star) =
     (if js_gt (timeDifference now message) (5 * 60) then Rejected ExpiredChallengeError
      else (case verify L message address signature of
              Inl error \<Rightarrow> Rejected (VerificationError error)
            | Inr ok \<Rightarrow>
                if ok then Resolved (last (chain (fst (submitStar L now now_add self address message signature star))))
                else Rejected InvalidSignatureError))"
  using assms(2) by (rule submitStar_promise)

theorem submitStar_malformed_outcome_witness:
  "snd (submitStar example_libs 1700000200123 1700000200456 example_ledger
          ''addr'' ''garbage'' ''addr/garbage'' ''Sirius'') =
     Resolved \<lparr>hash = Some ''4107'', height = 1, body = ''S;addr;garbage;addr/garbage;Sirius'',
       time = Some ''1700000200'', previousBlockHash = Some ''65218''\<rparr>"
proof -
  have n: "\<not> three_part ''addr'' ''garbage''"
    by code_simp
  have "snd (submitStar example_libs 1700000200123 1700000200456 example_ledger
          ''addr'' ''garbage'' ''addr/garbage'' ''Sirius'') =
     (if js_gt (timeDifference 1700000200123 ''garbage'') (5 * 60) then Rejected ExpiredChallengeError
      else (case verify example_libs ''garbage'' ''addr'' ''addr/garbage'' of
              Inl error \<Rightarrow> Rejected (VerificationError error)
            | Inr ok \<Rightarrow>
                if ok then Resolved (last (chain (fst (submitStar example_libs 1700000200123 1700000200456 example_ledger
          ''addr'' ''garbage'' ''addr/garbage'' ''Sirius''))))
                else Rejected InvalidSignatureError))"
    by (rule submitStar_malformed_outcome [OF n example_ledger_cached])
  also have "\<dots> = Resolved \<lparr>hash = Some ''4107'', height = 1, body = ''S;addr;garbage;addr/garbage;Sirius'',
       time = Some ''1700000200'', previousBlockHash = Some ''65218''\<rparr>"
    by code_simp
  finally show ?thesis .
qed

text \<open>
  C3. On a ledger whose cached height is the length of its chain minus one, when the
  promise of \<open>submitStar\<close> is rejected because the challenge is expired or because
  \<open>verify\<close> returns false, the block with the payload of the call is appended all the
  same: the chain is the old chain followed by that block.
\<close>

theorem submitStar_appends_when_rejecting:
  assumes "height_cached self"
    and "js_gt (timeDifference now message) (5 * 60) \<or> verify L message address signature = Inr False"
  shows "is_Rejected (snd (submitStar L now now_add self address message signature star)) \<and>
         length (chain (fst (submitStar L now now_add self address message signature star))) =
           length (chain self) + 1 \<and>
         butlast (chain (fst (submitStar L now now_add self address message signature star))) = chain self \<and>
         body (last (chain (fst (submitStar L now now_add self address message signature star)))) =
           encodeData L (StarPayload address message signature star)"
proof -
  let ?r = "submitStar L now now_add self address message signature star"
  from assms(2) submitStar_promise [OF assms(1), of L now now_add address message signature star]
  have "is_Rejected (snd ?r)"
    by (auto simp: is_Rejected_def)
  moreover
  from addBlock_cached [OF assms(1), of L now_add "new_Block L (StarPayload address message signature star)"]
  obtain b where
    "addBlock L now_add self (new_Block L (StarPayload address message signature star)) =
       (self\<lparr>chain := chain self @ [b], chain_height := chain_height self + 1\<rparr>, Resolved b)"
    and "body b = body (new_Block L (StarPayload address message signature star))"
    by blast
  then have "chain (fst ?r) = chain self @ [b]"
    and "body b = encodeData L (StarPayload address message signature star)"
    by (simp_all add: submitStar_ledger new_Block_def)
  ultimately show ?thesis by simp
qed

theorem submitStar_appends_when_rejecting_witness:
  "snd (submitStar example_libs 1700000301123 1700000301456 example_ledger
          ''addr'' ''addr:1700000000:starRegistry'' ''addr/addr:1700000000:starRegistry'' ''Sirius'') = Rejected ExpiredChallengeError \<and>
   length (chain example_ledger) = 1 \<and>
   length (chain (fst (submitStar example_libs 1700000301123 1700000301456 example_ledger
          ''addr'' ''addr:1700000000:starRegistry'' ''addr/addr:1700000000:starRegistry'' ''Sirius''))) = 2 \<and>
   snd (submitStar example_libs 1700000100123 1700000100456 example_ledger
          ''addr'' ''addr:1700000000:starRegistry'' ''forged'' ''Sirius'') = Rejected InvalidSignatureError \<and>
   length (chain (fst (submitStar example_libs 1700000100123 1700000100456 example_ledger
          ''addr'' ''addr:1700000000:starRegistry'' ''forged'' ''Sirius''))) = 2"
proof -
  have e: "js_gt (timeDifference 1700000301123 ''addr:1700000000:starRegistry'') (5 * 60) \<or>
      verify example_libs ''addr:1700000000:starRegistry'' ''addr'' ''addr/addr:1700000000:starRegistry'' = Inr False"
    by code_simp
  have f: "js_gt (timeDifference 1700000100123 ''addr:1700000000:starRegistry'') (5 * 60) \<or>
      verify example_libs ''addr:1700000000:starRegistry'' ''addr'' ''forged'' = Inr False"
    by code_simp
  have 1: "snd (submitStar example_libs 1700000301123 1700000301456 example_ledger
          ''addr'' ''addr:1700000000:starRegistry'' ''addr/addr:1700000000:starRegistry'' ''Sirius'') = Rejected ExpiredChallengeError"
    by code_simp
  have 2: "snd (submitStar example_libs 1700000100123 1700000100456 example_ledger
          ''addr'' ''addr:1700000000:starRegistry'' ''forged'' ''Sirius'') = Rejected InvalidSignatureError"
    by code_simp
  have 3: "length (chain example_ledger) = 1"
    by code_simp
  from 1 2 3
    submitStar_appends_when_rejecting [OF example_ledger_cached e, of 1700000301456 "''Sirius''"]
    submitStar_appends_when_rejecting [OF example_ledger_cached f, of 1700000100456 "''Sirius''"]
  show ?thesis by simp
qed

text \<open>
  C4. \<open>_addBlock\<close>, given a block whose hash is unset, stores it with a hash that is the
  digest of the block with its hash field cleared and with the time, the height and the
  previous hash already set; the stored hash is the recomputed digest of the stored block.
\<close>

theorem addBlock_hash_excludes_hash_field:
  assumes "height_cached self" and "hash block0 = None"
  shows "snd (addBlock L now self block0) = Resolved (last (chain (fst (addBlock L now self block0)))) \<and>
         chain (fst (addBlock L now self block0)) =
           chain self @ [last (chain (fst (addBlock L now self block0)))] \<and>
         hash (last (chain (fst (addBlock L now self block0)))) =
           Some (SHA256 L (JSON_stringify L
             (block0\<lparr>hash := None, time := Some (seconds_string now),
                     height := chain_height self + 1,
                     previousBlockHash :=
                       (if chain self = [] then previousBlockHash block0
                        else hash (last (chain self)))\<rparr>))) \<and>
         hash (last (chain (fst (addBlock L now self block0)))) =
           Some (recomputed_digest L (last (chain (fst (addBlock L now self block0)))))"
proof -
  from addBlock_fresh_hash [OF assms, of L now] obtain b where
    b: "addBlock L now self block0 =
           (self\<lparr>chain := chain self @ [b], chain_height := chain_height self + 1\<rparr>, Resolved b)"
      "body b = body block0" "time b = Some (seconds_string now)"
      "height b = int (length (chain self))"
      "previousBlockHash b =
           (if chain self = [] then previousBlockHash block0 else hash (last (chain self)))"
      "hash b = Some (recomputed_digest L b)"
    by blast
  have "b\<lparr>hash := None\<rparr> = block0\<lparr>hash := None, time := Some (seconds_string now),
                     height := chain_height self + 1,
                     previousBlockHash :=
                       (if chain self = [] then previousBlockHash block0
                        else hash (last (chain self)))\<rparr>"
    using b(2-5) assms by (cases b, cases block0) (simp add: height_cached_def)
  with b(1,6) show ?thesis
    by (simp add: recomputed_digest_def)
qed

theorem addBlock_hash_excludes_hash_field_witness:
  "hash (last (chain (fst (addBlock example_libs 1700000200456 example_ledger
      (new_Block example_libs (StarPayload ''addr'' ''m'' ''s'' ''Sirius'')))))) =
     Some (example_SHA256 ''null|1|S;addr;m;s;Sirius|1700000200|65218'')"
proof -
  have h: "hash (new_Block example_libs (StarPayload ''addr'' ''m'' ''s'' ''Sirius'')) = None"
    by code_simp
  from addBlock_hash_excludes_hash_field [OF example_ledger_cached h, of example_libs 1700000200456]
  have "hash (last (chain (fst (addBlock example_libs 1700000200456 example_ledger
      (new_Block example_libs (StarPayload ''addr'' ''m'' ''s'' ''Sirius'')))))) =
    Some (SHA256 example_libs (JSON_stringify example_libs
             ((new_Block example_libs (StarPayload ''addr'' ''m'' ''s'' ''Sirius''))
                \<lparr>hash := None, time := Some (seconds_string 1700000200456),
                     height := chain_height example_ledger + 1,
                     previousBlockHash :=
                       (if chain example_ledger = []
                        then previousBlockHash (new_Block example_libs (StarPayload ''addr'' ''m'' ''s'' ''Sirius''))
                        else hash (last (chain example_ledger)))\<rparr>)))"
    by simp
  also have "\<dots> = Some (example_SHA256 ''null|1|S;addr;m;s;Sirius|1700000200|65218'')"
    by code_simp
  finally show ?thesis .
qed

text \<open>
  C5, counterexample. Two appends issued before either completes both read the height
  0: the chain gets the heights 0, 1, 1, and the block at index 2 names the genesis
  block, not the block at index 1, as the block before it. An append issued before the
  genesis append of the constructor has completed reads the height -1: the block at
  index 1 has height 0 and no previous hash. All these appends resolve.
\<close>

theorem chain_integrity_counterexample:
  "settled example_raced =
     [Resolved (chain (ledger example_raced) ! 0), Resolved (chain (ledger example_raced) ! 1),
      Resolved (chain (ledger example_raced) ! 2)] \<and>
   map height (chain (ledger example_raced)) = [0, 1, 1] \<and>
   previousBlockHash (chain (ledger example_raced) ! 2) = hash (chain (ledger example_raced) ! 0) \<and>
   previousBlockHash (chain (ledger example_raced) ! 2) \<noteq> hash (chain (ledger example_raced) ! 1) \<and>
   map height (chain (ledger example_same_tick)) = [0, 0] \<and>
   previousBlockHash (chain (ledger example_same_tick) ! 1) = None \<and>
   previousBlockHash (chain (ledger example_same_tick) ! 1) \<noteq> hash (chain (ledger example_same_tick) ! 0)"
  by code_simp

text \<open>
  C5, as amended. When the genesis append of the constructor has completed and every
  further append completes before the next is issued, the block at every index \<open>h > 0\<close>
  has height \<open>h\<close>, its previous hash is the hash of the block at \<open>h - 1\<close>, and its hash
  is the recomputed digest of its content.
\<close>

theorem chain_integrity:
  assumes "0 < h" and "h < length (chain (ledger (run L (Complete # sequential ops) (new_Blockchain L t0))))"
  shows "height (chain (ledger (run L (Complete # sequential ops) (new_Blockchain L t0))) ! h) = int h \<and>
         previousBlockHash (chain (ledger (run L (Complete # sequential ops) (new_Blockchain L t0))) ! h) =
           hash (chain (ledger (run L (Complete # sequential ops) (new_Blockchain L t0))) ! (h - 1)) \<and>
         hash (chain (ledger (run L (Complete # sequential ops) (new_Blockchain L t0))) ! h) =
           Some (recomputed_digest L
             (chain (ledger (run L (Complete # sequential ops) (new_Blockchain L t0))) ! h))"
proof -
  have "ledger_sealed L (appends L ops (constructor L t0))"
    by (rule appends_sealed) (rule constructor_sealed)
  then have "sealed_from L 0 None (chain (appends L ops (constructor L t0)))"
    by (simp add: ledger_sealed_def)
  from sealed_from_nth [OF this, of h] assms show ?thesis
    by (simp add: run_completed_sequential)
qed

theorem chain_integrity_witness:
  "length (chain (ledger (run example_libs (Complete # sequential example_appends)
       (new_Blockchain example_libs 1700000000123)))) = 4 \<and>
   height (chain (ledger (run example_libs (Complete # sequential example_appends)
       (new_Blockchain example_libs 1700000000123))) ! 2) = 2 \<and>
   previousBlockHash (chain (ledger (run example_libs (Complete # sequential example_appends)
       (new_Blockchain example_libs 1700000000123))) ! 2) =
     hash (chain (ledger (run example_libs (Complete # sequential example_appends)
       (new_Blockchain example_libs 1700000000123))) ! 1) \<and>
   hash (chain (ledger (run example_libs (Complete # sequential example_appends)
       (new_Blockchain example_libs 1700000000123))) ! 2) =
     Some (recomputed_digest example_libs (chain (ledger (run example_libs (Complete # sequential example_appends)
       (new_Blockchain example_libs 1700000000123))) ! 2))"
proof -
  have l: "length (chain (ledger (run example_libs (Complete # sequential example_appends)
       (new_Blockchain example_libs 1700000000123)))) = 4"
    by code_simp
  have "(0::nat) < 2" and "2 < length (chain (ledger (run example_libs (Complete # sequential example_appends)
       (new_Blockchain example_libs 1700000000123))))"
    using l by simp_all
  from chain_integrity [OF this] l show ?thesis
    by simp
qed

text \<open>
  C6, counterexample. After the genesis append, two appends issued before either
  completes both resolve, and on the chain they leave the callbacks of \<open>validateChain\<close>
  push an error for the block at index 2 into the array the promise resolved with.
\<close>

theorem validateChain_counterexample:
  "list_all is_Resolved (settled example_raced) \<and>
   length (chain (ledger example_raced)) = 3 \<and>
   errorLog_after example_libs 3 (ledger example_raced) =
     [''previousHash does not match, for block.hash=53458''] \<and>
   validateChain example_libs (ledger example_raced) =
     Resolved [''previousHash does not match, for block.hash=53458'']"
  by code_simp

text \<open>
  C6, as amended. On the chain left when the genesis append of the constructor has
  completed and every further append has completed before the next was issued,
  \<open>validateChain\<close> resolves with an empty error list: the array is empty when the promise
  resolves and stays empty after any number of the callbacks have completed.
\<close>

theorem validateChain_of_appends:
  "validateChain L (ledger (run L (Complete # sequential ops) (new_Blockchain L t0))) = Resolved [] \<and>
   errorLog_after L k (ledger (run L (Complete # sequential ops) (new_Blockchain L t0))) = []"
proof -
  have "ledger_sealed L (appends L ops (constructor L t0))"
    by (rule appends_sealed) (rule constructor_sealed)
  then have s: "sealed_from L 0 None (chain (appends L ops (constructor L t0)))"
    by (simp add: ledger_sealed_def)
  have "errorLog_after L n (appends L ops (constructor L t0)) = []" for n
    unfolding errorLog_after_def
    by (rule sealed_from_scan [OF sealed_from_take [OF s]])
  then show ?thesis by (simp add: validateChain_def run_completed_sequential)
qed

theorem validateChain_of_appends_witness:
  "validateChain example_libs (ledger (run example_libs (Complete # sequential example_appends)
       (new_Blockchain example_libs 1700000000123))) = Resolved []"
  using validateChain_of_appends [of example_libs example_appends 1700000000123 0]
  by simp

text \<open>
  C7. The constructor leaves a chain of one block, the genesis block: it carries the
  payload \<open>Genesis Block\<close>, its height is 0, its previous hash is unset, and \<open>validate\<close>
  accepts it, also with any other hash and body in place of its own.
\<close>

theorem genesis_block:
  "length (chain (constructor L now)) = 1 \<and>
   chain_height (constructor L now) = 0 \<and>
   body (hd (chain (constructor L now))) = encodeData L (GenesisPayload ''Genesis Block'') \<and>
   height (hd (chain (constructor L now))) = 0 \<and>
   previousBlockHash (hd (chain (constructor L now))) = None \<and>
   validate L (hd (chain (constructor L now))) = Inr True \<and>
   validate L ((hd (chain (constructor L now)))\<lparr>hash := x, body := y\<rparr>) = Inr True"
proof -
  let ?e = "\<lparr>chain = [], chain_height = - 1\<rparr>"
  have c: "height_cached ?e" by (simp add: height_cached_def)
  from addBlock_cached [OF c, of L now "new_Block L (GenesisPayload ''Genesis Block'')"]
  obtain b where
    "addBlock L now ?e (new_Block L (GenesisPayload ''Genesis Block'')) =
       (?e\<lparr>chain := chain ?e @ [b], chain_height := chain_height ?e + 1\<rparr>, Resolved b)"
    "body b = body (new_Block L (GenesisPayload ''Genesis Block''))"
    "height b = int (length (chain ?e))"
    "previousBlockHash b =
       (if chain ?e = [] then previousBlockHash (new_Block L (GenesisPayload ''Genesis Block''))
        else hash (last (chain ?e)))"
    by blast
  then show ?thesis
    by (simp add: constructor_def initializeChain_def new_Block_def validate_def)
qed

theorem genesis_block_witness:
  "chain example_ledger =
     [\<lparr>hash = Some ''65218'', height = 0, body = ''G;Genesis Block'',
       time = Some ''1700000000'', previousBlockHash = None\<rparr>] \<and>
   validate example_libs (hd (chain example_ledger)) = Inr True \<and>
   validate example_libs ((hd (chain example_ledger))\<lparr>hash := Some ''tampered'', body := ''G;Other''\<rparr>) = Inr True"
proof -
  have c: "chain example_ledger =
     [\<lparr>hash = Some ''65218'', height = 0, body = ''G;Genesis Block'',
       time = Some ''1700000000'', previousBlockHash = None\<rparr>]"
    by code_simp
  have v: "validate example_libs (hd (chain example_ledger)) = Inr True"
    and t: "validate example_libs ((hd (chain example_ledger))\<lparr>hash := Some ''tampered'', body := ''G;Other''\<rparr>) = Inr True"
    using genesis_block [where L = example_libs and now = 1700000000123
        and x = "Some ''tampered''" and y = "''G;Other''"]
    by (simp_all add: example_ledger_def)
  from c v t show ?thesis by blast
qed

text \<open>
  C8. At a clock reading of at least one second after the epoch,
  \<open>requestMessageOwnershipVerification\<close> resolves with the address, a colon, the clock
  reading in whole seconds, and \<open>:starRegistry\<close>, and leaves the ledger as it was.
\<close>

theorem requestMessageOwnershipVerification_message:
  assumes "1000 \<le> now"
  shows "requestMessageOwnershipVerification now self address =
           (self, Resolved (address @ '':'' @ Number_toString (now div 1000) @ '':starRegistry''))"
  using assms by (simp add: requestMessageOwnershipVerification_def seconds_string_div)

theorem requestMessageOwnershipVerification_message_witness:
  "requestMessageOwnershipVerification 1700000000999 example_ledger ''addr'' =
     (example_ledger, Resolved ''addr:1700000000:starRegistry'')"
proof -
  have n: "(1000::int) \<le> 1700000000999" by simp
  have "address @ '':'' @ Number_toString (1700000000999 div 1000) @ '':starRegistry'' =
      ''addr:1700000000:starRegistry''" if "address = ''addr''" for address
    unfolding that by code_simp
  with requestMessageOwnershipVerification_message [OF n, of example_ledger "''addr''"]
  show ?thesis by simp
qed

text \<open>
  C9. \<open>getStarsByWalletAddress\<close> resolves with the stars of the blocks after the first
  whose decoded payload has the queried address, in chain order.
\<close>

theorem getStarsByWalletAddress_stars:
  "getStarsByWalletAddress L self address = Resolved (stars_of_wallet L address (chain self))"
  by (simp add: getStarsByWalletAddress_def stars_of_wallet_def getStars_foldl)

theorem getStarsByWalletAddress_stars_witness:
  "getStarsByWalletAddress example_libs (appends example_libs example_appends example_ledger) ''addr'' =
     Resolved [''Sirius'', ''Deneb'']"
proof -
  have "stars_of_wallet example_libs ''addr''
          (chain (appends example_libs example_appends example_ledger)) = [''Sirius'', ''Deneb'']"
    by code_simp
  with getStarsByWalletAddress_stars
         [of example_libs "appends example_libs example_appends example_ledger" "''addr''"]
  show ?thesis by simp
qed

text \<open>
  C10. \<open>getBlockByHeight\<close> always resolves. It resolves with \<open>null\<close> when no block of
  the chain has the height asked for, which is the case for every height from the length
  of the chain on in a ledger built by appends.
\<close>

theorem getBlockByHeight_not_found:
  "is_Resolved (getBlockByHeight self h) \<and>
   ((\<forall>b \<in> set (chain self). height b \<noteq> h) \<longrightarrow> getBlockByHeight self h = Resolved None) \<and>
   (int (length (chain (appends L ops (constructor L t0)))) \<le> h \<longrightarrow>
      getBlockByHeight (appends L ops (constructor L t0)) h = Resolved None)"
proof (intro conjI impI)
  show "is_Resolved (getBlockByHeight self h)"
    by (simp add: getBlockByHeight_def is_Resolved_def split: option.splits)
next
  assume "\<forall>b \<in> set (chain self). height b \<noteq> h"
  then show "getBlockByHeight self h = Resolved None"
    by (rule getBlockByHeight_no_match)
next
  assume "int (length (chain (appends L ops (constructor L t0)))) \<le> h"
  then have "\<forall>b \<in> set (chain (appends L ops (constructor L t0))). height b \<noteq> h"
    using appends_heights [of _ L ops t0] by fastforce
  then show "getBlockByHeight (appends L ops (constructor L t0)) h = Resolved None"
    by (rule getBlockByHeight_no_match)
qed

theorem getBlockByHeight_not_found_witness:
  "length (chain (appends example_libs example_appends example_ledger)) = 4 \<and>
   getBlockByHeight (appends example_libs example_appends example_ledger) 4 = Resolved None \<and>
   getBlockByHeight (appends example_libs example_appends example_ledger) (- 1) = Resolved None"
proof -
  let ?s = "appends example_libs example_appends example_ledger"
  have l: "length (chain ?s) = 4"
    by code_simp
  have n: "\<forall>b \<in> set (chain ?s). height b \<noteq> - 1"
    by code_simp
  from l have "int (length (chain (appends example_libs example_appends (constructor example_libs 1700000000123)))) \<le> 4"
    by (simp add: example_ledger_def)
  with getBlockByHeight_not_found [of "appends example_libs example_appends (constructor example_libs 1700000000123)" 4 example_libs example_appends 1700000000123]
  have 1: "getBlockByHeight ?s 4 = Resolved None"
    by (simp add: example_ledger_def)
  from n getBlockByHeight_not_found [of ?s "- 1" example_libs "[]" 0]
  have 2: "getBlockByHeight ?s (- 1) = Resolved None"
    by blast
  from l 1 2 show ?thesis by blast
qed

end
